theory Spec2Isabelle
  imports Main
begin

section \<open>Text and the regular expressions of the scripts\<close>

text \<open>
  The scripts under \<^verbatim>\<open>helper_scripts/\<close> work on the text of a file with Python's
  \<^verbatim>\<open>re\<close> module. Text is a \<^typ>\<open>string\<close>; the character classes below are those of
  \<^verbatim>\<open>re\<close> on code points below 128 (the model is about ASCII text). The patterns of the
  source are sequences of the items below, so a pattern is an \<open>item list\<close> and the matcher
  is the backtracking matcher of \<^verbatim>\<open>re\<close> restricted to these items: a greedy repetition
  tries the longest run first and gives characters back one at a time, an alternation tries
  its branches from left to right.
\<close>

datatype cls = Space | Dot | Word | NotSemi

definition nl :: char where
  "nl = CHR 0x0A"

definition is_space :: "char \<Rightarrow> bool" where
  "is_space c \<longleftrightarrow>
     c \<in> set [CHR '' '', CHR 0x09, CHR 0x0A, CHR 0x0B, CHR 0x0C, CHR 0x0D,
                CHR 0x1C, CHR 0x1D, CHR 0x1E, CHR 0x1F]"

definition is_word :: "char \<Rightarrow> bool" where
  "is_word c \<longleftrightarrow>
     c \<in> set (''abcdefghijklmnopqrstuvwxyz'' @ ''ABCDEFGHIJKLMNOPQRSTUVWXYZ'' @
               ''0123456789'' @ ''_'')"

fun in_cls :: "cls \<Rightarrow> char \<Rightarrow> bool" where
  "in_cls Space c = is_space c"
| "in_cls Dot c = (c \<noteq> nl)"
| "in_cls Word c = is_word c"
| "in_cls NotSemi c = (c \<noteq> CHR '';'')"

text \<open>
  \<open>Bol\<close> is \<^verbatim>\<open>^\<close> and \<open>Eol\<close> is \<^verbatim>\<open>$\<close>, both under \<^verbatim>\<open>re.MULTILINE\<close>; \<open>WordB\<close> is
  \<^verbatim>\<open>\b\<close>; \<open>Lit s\<close> is the escaped literal \<open>s\<close>; \<open>Alt\<close> is an alternation of literals;
  \<open>Star\<close> and \<open>Plus\<close> are the greedy \<^verbatim>\<open>*\<close> and \<^verbatim>\<open>+\<close> of a character class and
  \<open>Opt c\<close> is \<^verbatim>\<open>c?\<close>.
\<close>

datatype item = Bol | Eol | WordB | Lit string | Alt "string list"
  | Star cls | Plus cls | Opt char

text \<open>
  A position in the subject is the character before it (\<open>None\<close> at the start of the text)
  and the rest of the text.
\<close>

definition prev_after :: "nat \<Rightarrow> char option \<Rightarrow> string \<Rightarrow> char option" where
  "prev_after n prev s = (if n = 0 \<or> s = [] then prev else Some (s ! (min n (length s) - 1)))"

definition at_bol :: "char option \<Rightarrow> bool" where
  "at_bol prev \<longleftrightarrow> prev = None \<or> prev = Some nl"

definition at_eol :: "string \<Rightarrow> bool" where
  "at_eol s \<longleftrightarrow> (case s of [] \<Rightarrow> True | c # _ \<Rightarrow> c = nl)"

definition at_wordb :: "char option \<Rightarrow> string \<Rightarrow> bool" where
  "at_wordb prev s \<longleftrightarrow>
     (case prev of None \<Rightarrow> False | Some c \<Rightarrow> is_word c) \<noteq>
     (case s of [] \<Rightarrow> False | c # _ \<Rightarrow> is_word c)"

text \<open>
  \<open>tries k lo n\<close> is the backtracking of a greedy repetition that can take at most \<open>n\<close>
  and at least \<open>lo\<close> characters: the continuation \<open>k\<close> is tried with \<open>n\<close>, then \<open>n - 1\<close>,
  down to \<open>lo\<close>, and the first success is the result.
\<close>

primrec tries :: "(nat \<Rightarrow> 'a option) \<Rightarrow> nat \<Rightarrow> nat \<Rightarrow> 'a option" where
  "tries k lo 0 = (if lo = 0 then k 0 else None)"
| "tries k lo (Suc n) =
     (if Suc n < lo then None
      else case k (Suc n) of Some r \<Rightarrow> Some r | None \<Rightarrow> tries k lo n)"

primrec first_some :: "('b \<Rightarrow> 'a option) \<Rightarrow> 'b list \<Rightarrow> 'a option" where
  "first_some k [] = None"
| "first_some k (x # xs) = (case k x of Some r \<Rightarrow> Some r | None \<Rightarrow> first_some k xs)"

text \<open>
  \<open>rmatch p prev s\<close> matches the pattern \<open>p\<close> at the position \<open>(prev, s)\<close>, as
  \<^verbatim>\<open>re\<close> does at one start position. The result is the number of characters each item of
  the pattern has taken, in the order of the items: their sum is the length of the match
  (group 0), and the count of one item locates the text of a group.
\<close>

primrec rmatch :: "item list \<Rightarrow> char option \<Rightarrow> string \<Rightarrow> nat list option" where
  "rmatch [] prev s = Some []"
| "rmatch (i # r) prev s =
     (let continue = (\<lambda>n. map_option (Cons n) (rmatch r (prev_after n prev s) (drop n s)))
      in case i of
        Bol \<Rightarrow> if at_bol prev then continue 0 else None
      | Eol \<Rightarrow> if at_eol s then continue 0 else None
      | WordB \<Rightarrow> if at_wordb prev s then continue 0 else None
      | Lit l \<Rightarrow> if take (length l) s = l then continue (length l) else None
      | Alt ls \<Rightarrow> first_some (\<lambda>l. if take (length l) s = l then continue (length l) else None) ls
      | Star c \<Rightarrow> tries continue 0 (length (takeWhile (in_cls c) s))
      | Plus c \<Rightarrow> tries continue 1 (length (takeWhile (in_cls c) s))
      | Opt c \<Rightarrow> tries continue 0 (length (takeWhile (\<lambda>x. x = c) (take 1 s))))"

text \<open>
  \<open>finditer p prev s\<close> is the scan of \<^verbatim>\<open>re.finditer\<close> and \<^verbatim>\<open>re.findall\<close> from the
  position \<open>(prev, s)\<close>: the leftmost match is found by trying each start position in turn,
  and the scan goes on after the match. Each match is its text with the counts of
  \<open>rmatch\<close>. After an empty match the scan moves one character on.
\<close>

function finditer :: "item list \<Rightarrow> char option \<Rightarrow> string \<Rightarrow> (string \<times> nat list) list" where
  "finditer p prev s =
     (case rmatch p prev s of
        None \<Rightarrow> (case s of [] \<Rightarrow> [] | c # cs \<Rightarrow> finditer p (Some c) cs)
      | Some ns \<Rightarrow>
          (let n = sum_list ns in
           if n = 0 \<or> s = []
           then ([], ns) # (case s of [] \<Rightarrow> [] | c # cs \<Rightarrow> finditer p (Some c) cs)
           else (take n s, ns) # finditer p (prev_after n prev s) (drop n s)))"
  by pat_completeness auto
termination
  by (relation "measure (\<lambda>(p, prev, s). length s)") (auto dest!: member_le_sum_list)

declare finditer.simps [simp del]

text \<open>
  \<open>re_sub p limit prev s\<close> is \<^verbatim>\<open>re.sub(p, '', s, count)\<close> from the position \<open>(prev, s)\<close>:
  the same scan, which drops the text of each match and keeps the rest. \<open>limit\<close> is
  \<open>None\<close> when \<^verbatim>\<open>count\<close> is 0 (no limit), and \<open>Some k\<close> when \<open>k\<close> more matches may be
  replaced.
\<close>

function re_sub :: "item list \<Rightarrow> nat option \<Rightarrow> char option \<Rightarrow> string \<Rightarrow> string" where
  "re_sub p limit prev s =
     (if limit = Some 0 then s
      else case rmatch p prev s of
        None \<Rightarrow> (case s of [] \<Rightarrow> [] | c # cs \<Rightarrow> c # re_sub p limit (Some c) cs)
      | Some ns \<Rightarrow>
          (let n = sum_list ns; limit' = map_option (\<lambda>k. k - 1) limit in
           if n = 0 \<or> s = []
           then (case s of [] \<Rightarrow> [] | c # cs \<Rightarrow> c # re_sub p limit' (Some c) cs)
           else re_sub p limit' (prev_after n prev s) (drop n s)))"
  by pat_completeness auto
termination
  by (relation "measure (\<lambda>(p, limit, prev, s). length s)") (auto dest!: member_le_sum_list)

declare re_sub.simps [simp del]


section \<open>The detector of \<^verbatim>\<open>remove_unused_variables.py\<close>\<close>

text \<open>
  The syntax tree of \<^verbatim>\<open>ast.parse\<close>, as far as \<^verbatim>\<open>UnusedVariableDetector\<close> tells its nodes
  apart: a \<open>Name\<close> with its identifier and context, an \<open>Assign\<close> with its targets, its
  value and its \<^verbatim>\<open>lineno\<close>, a function definition with the names of \<^verbatim>\<open>node.args.args\<close>
  and its child nodes in field order, and any other node with its child nodes. The context
  nodes (\<^verbatim>\<open>Load()\<close>, \<^verbatim>\<open>Store()\<close>) under a name, a tuple or a list are left out of the
  child nodes: the visitor does nothing on them.
\<close>

datatype expr_context = Load | Store | Del | AugLoad

datatype node =
    Name string expr_context
  | Assign "node list" node nat
  | FunctionDef "string list" "node list"
  | AsyncFunctionDef "string list" "node list"
  | Node "node list"

text \<open>
  The state of the visitor. \<open>defined_vars\<close> is the dictionary from a name to the lines of
  its assignments, in insertion order. (The field \<^verbatim>\<open>current_scope_vars\<close> of the source is
  never read or written after \<^verbatim>\<open>__init__\<close>.)
\<close>

record detector =
  defined_vars :: "(string \<times> nat list) list"
  used_vars :: "string set"
  function_params :: "string set"

definition new_detector :: detector where
  "new_detector = \<lparr>defined_vars = [], used_vars = {}, function_params = {}\<rparr>"

fun dict_append :: "string \<Rightarrow> nat \<Rightarrow> (string \<times> nat list) list \<Rightarrow> (string \<times> nat list) list" where
  "dict_append k v [] = [(k, [v])]"
| "dict_append k v ((k', vs) # d) =
     (if k = k' then (k', vs @ [v]) # d else (k', vs) # dict_append k v d)"

fun record_target :: "nat \<Rightarrow> node \<Rightarrow> detector \<Rightarrow> detector" where
  "record_target lineno (Name ident ctx) d = d\<lparr>defined_vars := dict_append ident lineno (defined_vars d)\<rparr>"
| "record_target lineno _ d = d"

fun visit :: "node \<Rightarrow> detector \<Rightarrow> detector" where
  "visit (Name ident ctx) d =
     (if ctx = Load \<or> ctx = AugLoad then d\<lparr>used_vars := insert ident (used_vars d)\<rparr> else d)"
| "visit (Assign targets val lineno) d =
     visit val (fold visit targets (fold (record_target lineno) targets d))"
| "visit (FunctionDef params children) d =
     fold visit children (d\<lparr>function_params := function_params d \<union> set params\<rparr>)"
| "visit (AsyncFunctionDef params children) d =
     fold visit children (d\<lparr>function_params := function_params d \<union> set params\<rparr>)"
| "visit (Node children) d = fold visit children d"

definition startswith_underscore :: "string \<Rightarrow> bool" where
  "startswith_underscore var \<longleftrightarrow> (case var of [] \<Rightarrow> False | c # _ \<Rightarrow> c = CHR ''_'')"

text \<open>
  \<^verbatim>\<open>get_unused_variables\<close> returns a Python set; here it is the list of its elements in
  the order of \<open>defined_vars\<close>, without repetition since the keys of a dictionary are
  distinct.
\<close>

definition get_unused_variables :: "detector \<Rightarrow> string list" where
  "get_unused_variables d =
     filter (\<lambda>var. var \<notin> used_vars d \<and> var \<notin> function_params d \<and> \<not> startswith_underscore var)
       (map fst (defined_vars d))"

section \<open>Files\<close>

text \<open>
  The file at \<^verbatim>\<open>filepath\<close> is its text. What the outside world decides is a parameter of
  the run: whether reading the file raises, what \<^verbatim>\<open>ast.parse\<close> returns for a text, the
  order in which Python iterates over the set of unused names, and how the write-back
  goes. \<^verbatim>\<open>open(filepath, 'w')\<close> either raises and leaves the file as it is, or empties the
  file; the write that follows either stores the whole new text or raises after some
  prefix of it has reached the file. In \<open>process_python_file\<close> and
  \<open>process_javascript_file\<close> every message is printed; the same functions with a
  \<^verbatim>\<open>print\<close> that can raise are \<open>process_python_file_printing\<close> and
  \<open>process_javascript_file_printing\<close> further down, and they agree with the former when
  no \<^verbatim>\<open>print\<close> raises.
\<close>

datatype parse_result = Parsed node | SyntaxError | ParseRaises

datatype write_fault = NoFault | OpenFails | WriteFails nat

datatype exn = ReadError | ParseError | WriteError | PrintError

record env =
  read_fails :: bool
  ast_parse :: "string \<Rightarrow> parse_result"
  set_order :: "string list \<Rightarrow> string list"
  write_fault :: write_fault

fun write_file :: "write_fault \<Rightarrow> string \<Rightarrow> string \<Rightarrow> string \<times> (exn + unit)" where
  "write_file NoFault new old = (new, Inr ())"
| "write_file OpenFails new old = (old, Inl WriteError)"
| "write_file (WriteFails k) new old = (take k new, Inl WriteError)"

section \<open>\<^verbatim>\<open>process_python_file\<close>\<close>

text \<open>The pattern \<^verbatim>\<open>rf'^\s*{re.escape(var)}\s*=\s*.*$'\<close>.\<close>

definition py_pattern :: "string \<Rightarrow> item list" where
  "py_pattern var = [Bol, Star Space, Lit var, Star Space, Lit ''='', Star Space, Star Dot, Eol]"

text \<open>The body of the loop \<^verbatim>\<open>for var in unused_vars\<close>.\<close>

definition remove_var :: "string \<Rightarrow> string \<times> nat \<Rightarrow> string \<times> nat" where
  "remove_var var = (\<lambda>(modified_content, removed_count).
     let matches = finditer (py_pattern var) None modified_content in
     if matches \<noteq> []
     then (re_sub (py_pattern var @ [Opt nl]) None None modified_content,
           removed_count + length matches)
     else (modified_content, removed_count))"

text \<open>
  The statements inside \<^verbatim>\<open>try:\<close>. The result is the text of the file afterwards and
  either the exception that leaves the block or the returned pair
  \<open>(removed_count, errors_count)\<close>.
\<close>

definition python_body :: "env \<Rightarrow> string \<Rightarrow> string \<times> (exn + nat \<times> nat)" where
  "python_body e file =
     (if read_fails e then (file, Inl ReadError)
      else let content = file in
        case ast_parse e content of
          SyntaxError \<Rightarrow> (file, Inr (0, 1))
        | ParseRaises \<Rightarrow> (file, Inl ParseError)
        | Parsed tree \<Rightarrow>
            (let unused_vars = get_unused_variables (visit tree new_detector) in
             if unused_vars = [] then (file, Inr (0, 0))
             else let (modified_content, removed_count) =
                        fold remove_var (set_order e unused_vars) (content, 0) in
               if removed_count > 0
               then (case write_file (write_fault e) modified_content file of
                       (file', Inl x) \<Rightarrow> (file', Inl x)
                     | (file', Inr _) \<Rightarrow> (file', Inr (removed_count, 0)))
               else (file, Inr (0, 0))))"

text \<open>
  \<^verbatim>\<open>except Exception\<close> in a run whose messages are printed: every exception becomes the
  pair \<open>(0, 1)\<close>. The handler whose own \<^verbatim>\<open>print\<close> can raise is \<open>handler_printing\<close>
  below.
\<close>

definition except_exception :: "string \<times> (exn + nat \<times> nat) \<Rightarrow> string \<times> nat \<times> nat" where
  "except_exception r = (case r of (file, Inl x) \<Rightarrow> (file, 0, 1) | (file, Inr res) \<Rightarrow> (file, res))"

definition process_python_file :: "env \<Rightarrow> string \<Rightarrow> string \<times> nat \<times> nat" where
  "process_python_file e file = except_exception (python_body e file)"

section \<open>\<^verbatim>\<open>process_javascript_file\<close>\<close>

text \<open>The pattern \<^verbatim>\<open>r'^(\s*)(const|let|var)\s+(\w+)\s*=\s*[^;]+;'\<close>.\<close>

definition var_pattern :: "item list" where
  "var_pattern = [Bol, Star Space, Alt [''const'', ''let'', ''var''], Plus Space, Plus Word,
                  Star Space, Lit ''='', Star Space, Plus NotSemi, Lit '';'']"

text \<open>\<^verbatim>\<open>match.group(3)\<close>: the text taken by the fifth item of \<open>var_pattern\<close>.\<close>

definition group3 :: "string \<times> nat list \<Rightarrow> string" where
  "group3 m = (case m of (text, ns) \<Rightarrow> take (ns ! 4) (drop (sum_list (take 4 ns)) text))"

definition usage_pattern :: "string \<Rightarrow> item list" where
  "usage_pattern var_name = [WordB, Lit var_name, WordB]"

text \<open>The body of the loop \<^verbatim>\<open>for match in list(matches)\<close>.\<close>

definition js_step :: "string \<times> nat list \<Rightarrow> string \<times> nat \<Rightarrow> string \<times> nat" where
  "js_step m = (\<lambda>(modified_content, removed_count).
     let var_name = group3 m;
         usage_count = length (finditer (usage_pattern var_name) None modified_content) in
     if usage_count = 1
     then (re_sub [Lit (fst m), Opt nl] (Some 1) None modified_content, removed_count + 1)
     else (modified_content, removed_count))"

definition javascript_body :: "env \<Rightarrow> string \<Rightarrow> string \<times> (exn + nat \<times> nat)" where
  "javascript_body e file =
     (if read_fails e then (file, Inl ReadError)
      else let content = file;
               matches = finditer var_pattern None content;
               (modified_content, removed_count) = fold js_step matches (content, 0) in
        if removed_count > 0
        then (case write_file (write_fault e) modified_content file of
                (file', Inl x) \<Rightarrow> (file', Inl x)
              | (file', Inr _) \<Rightarrow> (file', Inr (removed_count, 0)))
        else (file, Inr (0, 0)))"

definition process_javascript_file :: "env \<Rightarrow> string \<Rightarrow> string \<times> nat \<times> nat" where
  "process_javascript_file e file = except_exception (javascript_body e file)"


section \<open>The two functions with their \<^verbatim>\<open>print\<close> calls\<close>

text \<open>
  Each function prints at three places: the warning before \<^verbatim>\<open>return 0, 1\<close> on a syntax
  error (Python only), the line about the removed variables after the write-back, and the
  line about the error in the handler. A \<^verbatim>\<open>print\<close> raises when standard output does not
  take the message (an encoding without the symbols of the message, a closed pipe); the
  messages that raise are a parameter of the call, a set \<open>out\<close>. The first two calls stand
  inside \<^verbatim>\<open>try:\<close>, so their exception reaches the handler; the third stands in the handler
  itself, and its exception leaves the function. The result of a call is the text of the
  file afterwards and either the exception that leaves the function or the returned pair.
\<close>

datatype message = SyntaxErrorMessage | RemovedMessage | ErrorMessage

definition python_body_printing :: "message set \<Rightarrow> env \<Rightarrow> string \<Rightarrow> string \<times> (exn + nat \<times> nat)" where
  "python_body_printing out e file =
     (if read_fails e then (file, Inl ReadError)
      else let content = file in
        case ast_parse e content of
          SyntaxError \<Rightarrow>
            (if SyntaxErrorMessage \<in> out then (file, Inl PrintError) else (file, Inr (0, 1)))
        | ParseRaises \<Rightarrow> (file, Inl ParseError)
        | Parsed tree \<Rightarrow>
            (let unused_vars = get_unused_variables (visit tree new_detector) in
             if unused_vars = [] then (file, Inr (0, 0))
             else let (modified_content, removed_count) =
                        fold remove_var (set_order e unused_vars) (content, 0) in
               if removed_count > 0
               then (case write_file (write_fault e) modified_content file of
                       (file', Inl x) \<Rightarrow> (file', Inl x)
                     | (file', Inr _) \<Rightarrow>
                         if RemovedMessage \<in> out then (file', Inl PrintError)
                         else (file', Inr (removed_count, 0)))
               else (file, Inr (0, 0))))"

definition javascript_body_printing :: "message set \<Rightarrow> env \<Rightarrow> string \<Rightarrow> string \<times> (exn + nat \<times> nat)" where
  "javascript_body_printing out e file =
     (if read_fails e then (file, Inl ReadError)
      else let content = file;
               matches = finditer var_pattern None content;
               (modified_content, removed_count) = fold js_step matches (content, 0) in
        if removed_count > 0
        then (case write_file (write_fault e) modified_content file of
                (file', Inl x) \<Rightarrow> (file', Inl x)
              | (file', Inr _) \<Rightarrow>
                  if RemovedMessage \<in> out then (file', Inl PrintError)
                  else (file', Inr (removed_count, 0)))
        else (file, Inr (0, 0)))"

text \<open>
  \<^verbatim>\<open>except Exception as e:\<close> with its \<^verbatim>\<open>print\<close> before \<^verbatim>\<open>return 0, 1\<close>.
\<close>

definition handler_printing :: "message set \<Rightarrow> string \<times> (exn + nat \<times> nat) \<Rightarrow> string \<times> (exn + nat \<times> nat)" where
  "handler_printing out r =
     (case r of
        (file, Inl x) \<Rightarrow> if ErrorMessage \<in> out then (file, Inl PrintError) else (file, Inr (0, 1))
      | (file, Inr res) \<Rightarrow> (file, Inr res))"

definition process_python_file_printing :: "message set \<Rightarrow> env \<Rightarrow> string \<Rightarrow> string \<times> (exn + nat \<times> nat)" where
  "process_python_file_printing out e file = handler_printing out (python_body_printing out e file)"

definition process_javascript_file_printing :: "message set \<Rightarrow> env \<Rightarrow> string \<Rightarrow> string \<times> (exn + nat \<times> nat)" where
  "process_javascript_file_printing out e file =
     handler_printing out (javascript_body_printing out e file)"

section \<open>Concrete parsers\<close>

text \<open>
  For a run on concrete text the parser is given as a table from texts to their syntax
  trees; a text that is not in the table is not valid Python.
\<close>

definition parse_table :: "(string \<times> node) list \<Rightarrow> string \<Rightarrow> parse_result" where
  "parse_table tbl text = (case map_of tbl text of Some tree \<Rightarrow> Parsed tree | None \<Rightarrow> SyntaxError)"

section \<open>Names of a whole file\<close>

text \<open>
  Three sets of names of a syntax tree, by recursion over the tree, with no reference to
  the visitor: the names that occur in a \<open>Name\<close> node in \<^verbatim>\<open>Load\<close> (or \<^verbatim>\<open>AugLoad\<close>) context
  anywhere in the tree, the names in \<^verbatim>\<open>args.args\<close> of any \<open>FunctionDef\<close> or
  \<open>AsyncFunctionDef\<close> of the tree, and the names that are a \<open>Name\<close> target of any
  \<open>Assign\<close> of the tree. Positions and scopes play no part in them.
\<close>

fun names_loaded :: "node \<Rightarrow> string set" where
  "names_loaded (Name ident ctx) = (if ctx = Load \<or> ctx = AugLoad then {ident} else {})"
| "names_loaded (Assign targets val lineno) = (\<Union>t \<in> set targets. names_loaded t) \<union> names_loaded val"
| "names_loaded (FunctionDef params children) = (\<Union>t \<in> set children. names_loaded t)"
| "names_loaded (AsyncFunctionDef params children) = (\<Union>t \<in> set children. names_loaded t)"
| "names_loaded (Node children) = (\<Union>t \<in> set children. names_loaded t)"

fun names_of_parameters :: "node \<Rightarrow> string set" where
  "names_of_parameters (Name ident ctx) = {}"
| "names_of_parameters (Assign targets val lineno) =
     (\<Union>t \<in> set targets. names_of_parameters t) \<union> names_of_parameters val"
| "names_of_parameters (FunctionDef params children) =
     set params \<union> (\<Union>t \<in> set children. names_of_parameters t)"
| "names_of_parameters (AsyncFunctionDef params children) =
     set params \<union> (\<Union>t \<in> set children. names_of_parameters t)"
| "names_of_parameters (Node children) = (\<Union>t \<in> set children. names_of_parameters t)"

fun target_names :: "node list \<Rightarrow> string set" where
  "target_names [] = {}"
| "target_names (Name ident ctx # ts) = insert ident (target_names ts)"
| "target_names (_ # ts) = target_names ts"

fun names_assigned :: "node \<Rightarrow> string set" where
  "names_assigned (Name ident ctx) = {}"
| "names_assigned (Assign targets val lineno) =
     target_names targets \<union> (\<Union>t \<in> set targets. names_assigned t) \<union> names_assigned val"
| "names_assigned (FunctionDef params children) = (\<Union>t \<in> set children. names_assigned t)"
| "names_assigned (AsyncFunctionDef params children) = (\<Union>t \<in> set children. names_assigned t)"
| "names_assigned (Node children) = (\<Union>t \<in> set children. names_assigned t)"

text \<open>The nodes of a tree: the tree itself and the nodes of its children.\<close>

fun nodes_of :: "node \<Rightarrow> node set" where
  "nodes_of (Name ident ctx) = {Name ident ctx}"
| "nodes_of (Assign targets val lineno) =
     insert (Assign targets val lineno) ((\<Union>t \<in> set targets. nodes_of t) \<union> nodes_of val)"
| "nodes_of (FunctionDef params children) =
     insert (FunctionDef params children) (\<Union>t \<in> set children. nodes_of t)"
| "nodes_of (AsyncFunctionDef params children) =
     insert (AsyncFunctionDef params children) (\<Union>t \<in> set children. nodes_of t)"
| "nodes_of (Node children) = insert (Node children) (\<Union>t \<in> set children. nodes_of t)"

section \<open>Results and errors\<close>



section \<open>Exceptions that leave the functions\<close>

lemma python_printing_agrees:
  "python_body_printing {} e file = python_body e file"
  by (simp add: python_body_printing_def python_body_def Let_def
      split: parse_result.splits prod.splits sum.splits)

lemma javascript_printing_agrees:
  "javascript_body_printing {} e file = javascript_body e file"
  by (simp add: javascript_body_printing_def javascript_body_def Let_def
      split: prod.splits sum.splits)

lemma printing_agrees:
  "process_python_file_printing {} e file =
     (fst (process_python_file e file), Inr (snd (process_python_file e file)))"
  "process_javascript_file_printing {} e file =
     (fst (process_javascript_file e file), Inr (snd (process_javascript_file e file)))"
proof -
  show "process_python_file_printing {} e file =
     (fst (process_python_file e file), Inr (snd (process_python_file e file)))"
    unfolding process_python_file_printing_def process_python_file_def python_printing_agrees
    by (cases "python_body e file")
       (auto simp: handler_printing_def except_exception_def split: sum.splits)
  show "process_javascript_file_printing {} e file =
     (fst (process_javascript_file e file), Inr (snd (process_javascript_file e file)))"
    unfolding process_javascript_file_printing_def process_javascript_file_def
      javascript_printing_agrees
    by (cases "javascript_body e file")
       (auto simp: handler_printing_def except_exception_def split: sum.splits)
qed

lemma escape_needs_failing_handler_print:
  "snd (process_python_file_printing out e file) = Inl x \<Longrightarrow> ErrorMessage \<in> out \<and> x = PrintError"
  "snd (process_javascript_file_printing out e file) = Inl x \<Longrightarrow> ErrorMessage \<in> out \<and> x = PrintError"
proof -
  show "snd (process_python_file_printing out e file) = Inl x \<Longrightarrow> ErrorMessage \<in> out \<and> x = PrintError"
    unfolding process_python_file_printing_def
    by (cases "python_body_printing out e file")
       (auto simp: handler_printing_def split: sum.splits if_splits)
  show "snd (process_javascript_file_printing out e file) = Inl x \<Longrightarrow> ErrorMessage \<in> out \<and> x = PrintError"
    unfolding process_javascript_file_printing_def
    by (cases "javascript_body_printing out e file")
       (auto simp: handler_printing_def split: sum.splits if_splits)
qed

text \<open>
  C10. A call is to return a pair whatever is raised while it runs. It does not: the
  handler prints before it returns, and when that \<^verbatim>\<open>print\<close> raises the exception leaves
  the function. Here standard output takes none of the messages. The Python run removes
  the line of \<open>y\<close> and rewrites the file, the message about the removal raises, the
  handler's message raises too, and the call ends with that exception and the file
  rewritten; the JavaScript run does the same on \<^verbatim>\<open>const unused = 1;\<close>.
\<close>

theorem failing_print_leaves_the_function:
  "process_python_file_printing {SyntaxErrorMessage, RemovedMessage, ErrorMessage}
     \<lparr>read_fails = False,
      ast_parse = parse_table
        [(''x = 1\<newline>y = 2\<newline>print(x)\<newline>'',
          Node [Assign [Name ''x'' Store] (Node []) 1,
                Assign [Name ''y'' Store] (Node []) 2,
                Node [Node [Name ''print'' Load, Name ''x'' Load]]])],
      set_order = id, write_fault = NoFault\<rparr>
     ''x = 1\<newline>y = 2\<newline>print(x)\<newline>'' = (''x = 1\<newline>print(x)\<newline>'', Inl PrintError) \<and>
   process_javascript_file_printing {SyntaxErrorMessage, RemovedMessage, ErrorMessage}
     \<lparr>read_fails = False, ast_parse = parse_table [], set_order = id, write_fault = NoFault\<rparr>
     ''const unused = 1;\<newline>'' = ([], Inl PrintError)"
  by code_simp

section \<open>The write-back\<close>

text \<open>
  C1, as stated, fails. The file is rewritten in place: \<^verbatim>\<open>open(filepath, 'w')\<close> empties it
  before the new text is written. Here the text is \<^verbatim>\<open>x = 1\<close>, \<^verbatim>\<open>y = 2\<close>, \<^verbatim>\<open>print(x)\<close>,
  the run removes the line of \<open>y\<close>, and the write fails before any character is stored:
  the file is left empty, not as it was.
\<close>

theorem failed_write_truncates_file:
  "process_python_file
     \<lparr>read_fails = False,
      ast_parse = parse_table
        [(''x = 1\<newline>y = 2\<newline>print(x)\<newline>'',
          Node [Assign [Name ''x'' Store] (Node []) 1,
                Assign [Name ''y'' Store] (Node []) 2,
                Node [Node [Name ''print'' Load, Name ''x'' Load]]])],
      set_order = id, write_fault = WriteFails 0\<rparr>
     ''x = 1\<newline>y = 2\<newline>print(x)\<newline>'' = ([], 0, 1) \<and>
   [] \<noteq> ''x = 1\<newline>y = 2\<newline>print(x)\<newline>''"
  by code_simp

text \<open>
  C1, amended. When reading the file fails, or opening it for writing fails, the file is
  afterwards what it was before the run, byte for byte, on the Python path and on the
  JavaScript path.
\<close>

theorem file_kept_when_open_fails:
  assumes "read_fails e \<or> write_fault e = OpenFails"
  shows "fst (process_python_file e file) = file \<and> fst (process_javascript_file e file) = file"
  using assms
  by (auto simp: process_python_file_def python_body_def process_javascript_file_def
      javascript_body_def except_exception_def Let_def
      split: parse_result.splits prod.splits sum.splits)

theorem file_kept_when_open_fails_witness:
  "(read_fails \<lparr>read_fails = False,
      ast_parse = parse_table
        [(''x = 1\<newline>y = 2\<newline>print(x)\<newline>'',
          Node [Assign [Name ''x'' Store] (Node []) 1,
                Assign [Name ''y'' Store] (Node []) 2,
                Node [Node [Name ''print'' Load, Name ''x'' Load]]])],
      set_order = id, write_fault = OpenFails\<rparr> \<or>
    write_fault \<lparr>read_fails = False,
      ast_parse = parse_table
        [(''x = 1\<newline>y = 2\<newline>print(x)\<newline>'',
          Node [Assign [Name ''x'' Store] (Node []) 1,
                Assign [Name ''y'' Store] (Node []) 2,
                Node [Node [Name ''print'' Load, Name ''x'' Load]]])],
      set_order = id, write_fault = OpenFails\<rparr> = OpenFails) \<and>
   fst (process_python_file \<lparr>read_fails = False,
      ast_parse = parse_table
        [(''x = 1\<newline>y = 2\<newline>print(x)\<newline>'',
          Node [Assign [Name ''x'' Store] (Node []) 1,
                Assign [Name ''y'' Store] (Node []) 2,
                Node [Node [Name ''print'' Load, Name ''x'' Load]]])],
      set_order = id, write_fault = OpenFails\<rparr>
     ''x = 1\<newline>y = 2\<newline>print(x)\<newline>'') = ''x = 1\<newline>y = 2\<newline>print(x)\<newline>'' \<and>
   fst (process_javascript_file \<lparr>read_fails = False,
      ast_parse = parse_table
        [(''x = 1\<newline>y = 2\<newline>print(x)\<newline>'',
          Node [Assign [Name ''x'' Store] (Node []) 1,
                Assign [Name ''y'' Store] (Node []) 2,
                Node [Node [Name ''print'' Load, Name ''x'' Load]]])],
      set_order = id, write_fault = OpenFails\<rparr>
     ''x = 1\<newline>y = 2\<newline>print(x)\<newline>'') = ''x = 1\<newline>y = 2\<newline>print(x)\<newline>''"
  using file_kept_when_open_fails
    [of "\<lparr>read_fails = False,
      ast_parse = parse_table
        [(''x = 1\<newline>y = 2\<newline>print(x)\<newline>'',
          Node [Assign [Name ''x'' Store] (Node []) 1,
                Assign [Name ''y'' Store] (Node []) 2,
                Node [Node [Name ''print'' Load, Name ''x'' Load]]])],
      set_order = id, write_fault = OpenFails\<rparr>" "''x = 1\<newline>y = 2\<newline>print(x)\<newline>''"]
  by simp

section \<open>What a run removes\<close>

text \<open>
  C3. The JavaScript path has no test for the leading underscore that
  \<^verbatim>\<open>get_unused_variables\<close> makes on the Python path: the declaration of \<^verbatim>\<open>_tmp\<close>, which
  is never read, is removed.
\<close>

theorem javascript_removes_marked_name:
  "process_javascript_file
     \<lparr>read_fails = False, ast_parse = parse_table [], set_order = id, write_fault = NoFault\<rparr>
     ''const _tmp = compute();\<newline>'' = ([], 1, 0)"
  by code_simp

text \<open>
  C2. The line \<^verbatim>\<open>y = 1; x = 2\<close> binds the unused \<open>y\<close> and the used \<open>x\<close>. The pattern of
  \<open>y\<close> matches the whole line, so the run removes the only binding of \<open>x\<close> and leaves
  \<^verbatim>\<open>print(x)\<close> reading a name that is bound nowhere.
\<close>

theorem removal_takes_used_binding:
  "process_python_file
     \<lparr>read_fails = False,
      ast_parse = parse_table
        [(''y = 1; x = 2\<newline>print(x)\<newline>'',
          Node [Assign [Name ''y'' Store] (Node []) 1,
                Assign [Name ''x'' Store] (Node []) 1,
                Node [Node [Name ''print'' Load, Name ''x'' Load]]])],
      set_order = id, write_fault = NoFault\<rparr>
     ''y = 1; x = 2\<newline>print(x)\<newline>'' = (''print(x)\<newline>'', 1, 0)"
  by code_simp

section \<open>Running twice\<close>


section \<open>What the detector classifies as unused\<close>

lemma keys_dict_append: "fst ` set (dict_append k v d) = insert k (fst ` set d)"
  by (induction k v d rule: dict_append.induct) auto

lemma record_target_fields:
  "used_vars (record_target ln t d) = used_vars d"
  "function_params (record_target ln t d) = function_params d"
  by (cases t; simp)+

lemma fold_record_target_fields:
  "used_vars (fold (record_target ln) ts d) = used_vars d"
  "function_params (fold (record_target ln) ts d) = function_params d"
  by (induction ts arbitrary: d) (simp_all add: record_target_fields)

lemma fold_record_target_keys:
  "fst ` set (defined_vars (fold (record_target ln) ts d)) =
     fst ` set (defined_vars d) \<union> target_names ts"
proof (induction ts arbitrary: d)
  case Nil
  then show ?case by simp
next
  case (Cons t ts)
  then show ?case by (cases t) (auto simp: keys_dict_append)
qed

lemma fold_visit_used:
  assumes "\<And>t d. t \<in> set ts \<Longrightarrow> used_vars (visit t d) = used_vars d \<union> names_loaded t"
  shows "used_vars (fold visit ts d) = used_vars d \<union> (\<Union>t \<in> set ts. names_loaded t)"
  using assms by (induction ts arbitrary: d) auto

lemma fold_visit_params:
  assumes "\<And>t d. t \<in> set ts \<Longrightarrow>
             function_params (visit t d) = function_params d \<union> names_of_parameters t"
  shows "function_params (fold visit ts d) =
           function_params d \<union> (\<Union>t \<in> set ts. names_of_parameters t)"
  using assms by (induction ts arbitrary: d) auto

lemma fold_visit_keys:
  assumes "\<And>t d. t \<in> set ts \<Longrightarrow>
             fst ` set (defined_vars (visit t d)) = fst ` set (defined_vars d) \<union> names_assigned t"
  shows "fst ` set (defined_vars (fold visit ts d)) =
           fst ` set (defined_vars d) \<union> (\<Union>t \<in> set ts. names_assigned t)"
  using assms by (induction ts arbitrary: d) auto

lemma visit_used: "used_vars (visit t d) = used_vars d \<union> names_loaded t"
proof (induction t arbitrary: d)
  case (Name ident ctx)
  then show ?case by simp
next
  case (Assign targets val lineno)
  then show ?case by (simp add: fold_visit_used fold_record_target_fields Un_assoc)
next
  case (FunctionDef params children)
  then show ?case by (simp add: fold_visit_used)
next
  case (AsyncFunctionDef params children)
  then show ?case by (simp add: fold_visit_used)
next
  case (Node children)
  then show ?case by (simp add: fold_visit_used)
qed

lemma visit_params: "function_params (visit t d) = function_params d \<union> names_of_parameters t"
proof (induction t arbitrary: d)
  case (Name ident ctx)
  then show ?case by simp
next
  case (Assign targets val lineno)
  then show ?case by (simp add: fold_visit_params fold_record_target_fields Un_assoc)
next
  case (FunctionDef params children)
  then show ?case by (simp add: fold_visit_params Un_assoc)
next
  case (AsyncFunctionDef params children)
  then show ?case by (simp add: fold_visit_params Un_assoc)
next
  case (Node children)
  then show ?case by (simp add: fold_visit_params)
qed

lemma visit_keys:
  "fst ` set (defined_vars (visit t d)) = fst ` set (defined_vars d) \<union> names_assigned t"
proof (induction t arbitrary: d)
  case (Name ident ctx)
  then show ?case by simp
next
  case (Assign targets val lineno)
  then show ?case by (simp add: fold_visit_keys fold_record_target_keys Un_assoc)
next
  case (FunctionDef params children)
  then show ?case by (simp add: fold_visit_keys)
next
  case (AsyncFunctionDef params children)
  then show ?case by (simp add: fold_visit_keys)
next
  case (Node children)
  then show ?case by (simp add: fold_visit_keys)
qed

lemma unused_characterised:
  "set (get_unused_variables (visit tree new_detector)) =
     {v \<in> names_assigned tree. v \<notin> names_loaded tree \<and> v \<notin> names_of_parameters tree \<and>
        \<not> startswith_underscore v}"
  by (auto simp: get_unused_variables_def visit_used visit_params new_detector_def
        visit_keys [of tree new_detector, simplified new_detector_def, simplified, symmetric])

text \<open>
  C5, as stated, fails. In \<^verbatim>\<open>def f(x): pass\<close> followed by \<^verbatim>\<open>x = 1\<close> on line 3, no name is
  read anywhere, so no \<^verbatim>\<open>Load\<close> reference to \<open>x\<close> follows the assignment in its scope or
  in a nested one; but \<open>x\<close> is also the name of a parameter, and the detector does not
  classify the assignment as unused.
\<close>

theorem parameter_name_keeps_binding:
  "visit (Node [FunctionDef [''x''] [Node [Node []], Node []],
                Assign [Name ''x'' Store] (Node []) 3]) new_detector =
     \<lparr>defined_vars = [(''x'', [3])], used_vars = {}, function_params = {''x''}\<rparr> \<and>
   get_unused_variables
     (visit (Node [FunctionDef [''x''] [Node [Node []], Node []],
                   Assign [Name ''x'' Store] (Node []) 3]) new_detector) = []"
  by (simp add: new_detector_def get_unused_variables_def)

text \<open>
  C5, amended. A name is classified as unused exactly when it is a \<open>Name\<close> target of some
  \<^verbatim>\<open>ast.Assign\<close> statement of the file, no \<open>Name\<close> node of the file has it in \<^verbatim>\<open>Load\<close> (or
  \<^verbatim>\<open>AugLoad\<close>) context (in any scope, before or after the assignment), it is not among
  \<^verbatim>\<open>args.args\<close> of any \<^verbatim>\<open>def\<close> or \<^verbatim>\<open>async def\<close> of the file, and it does not begin with an
  underscore. Annotated and augmented assignments bind no name for the detector, and
  positional-only, keyword-only, starred and lambda parameters are no parameters for it:
  only \<^verbatim>\<open>visit_Assign\<close> fills \<open>defined_vars\<close> and only \<^verbatim>\<open>node.args.args\<close> of the two kinds of
  function definition fills \<open>function_params\<close>.
\<close>

theorem unused_iff_never_loaded_anywhere:
  "v \<in> set (get_unused_variables (visit tree new_detector)) \<longleftrightarrow>
     v \<in> names_assigned tree \<and> v \<notin> names_loaded tree \<and> v \<notin> names_of_parameters tree \<and>
     \<not> startswith_underscore v"
  by (simp add: unused_characterised)


section \<open>Assignments with several targets\<close>

text \<open>
  C8, as stated, fails. In \<^verbatim>\<open>x = y = 1\<close> the target \<open>x\<close> is never read; the detector
  classifies it as unused like the target of any other assignment, and the run removes
  the line. Nothing records a warning: the result is the pair of counts.
\<close>

theorem multi_target_removed:
  "process_python_file
     \<lparr>read_fails = False,
      ast_parse = parse_table
        [(''x = y = 1\<newline>print(y)\<newline>'',
          Node [Assign [Name ''x'' Store, Name ''y'' Store] (Node []) 1,
                Node [Node [Name ''print'' Load, Name ''y'' Load]]])],
      set_order = id, write_fault = NoFault\<rparr>
     ''x = y = 1\<newline>print(y)\<newline>'' = (''print(y)\<newline>'', 1, 0)"
  by code_simp

lemma target_names_iff: "x \<in> target_names ts \<longleftrightarrow> (\<exists>ctx. Name x ctx \<in> set ts)"
  by (induction ts rule: target_names.induct) auto

lemma self_in_nodes_of: "t \<in> nodes_of t"
  by (cases t) auto

lemma names_assigned_iff:
  "x \<in> names_assigned t \<longleftrightarrow>
     (\<exists>targets val lineno ctx. Assign targets val lineno \<in> nodes_of t \<and> Name x ctx \<in> set targets)"
proof (induction t)
  case (Name ident ctx)
  then show ?case by auto
next
  case (Assign targets val lineno)
  then show ?case by (auto simp: target_names_iff; blast)
next
  case (FunctionDef params children)
  then show ?case by (auto; blast)
next
  case (AsyncFunctionDef params children)
  then show ?case by (auto; blast)
next
  case (Node children)
  then show ?case by (auto; blast)
qed

text \<open>
  C8, amended. A name is classified as unused exactly when some \<open>Assign\<close> statement
  anywhere in the file, with one target or with several, has it directly as a \<open>Name\<close>
  target, and the name is read nowhere in the file, is not among \<^verbatim>\<open>args.args\<close> of a
  function definition of the file and has no leading underscore. So every plain-name
  target of an assignment with several targets is a candidate like the target of any
  other assignment, and a name that stands only inside a destructured target (a tuple or
  a list), an attribute or a subscript is never classified as unused.
\<close>

theorem candidates_are_name_targets:
  "x \<in> set (get_unused_variables (visit tree new_detector)) \<longleftrightarrow>
     (\<exists>targets val lineno ctx.
        Assign targets val lineno \<in> nodes_of tree \<and> Name x ctx \<in> set targets) \<and>
     x \<notin> names_loaded tree \<and> x \<notin> names_of_parameters tree \<and> \<not> startswith_underscore x"
  unfolding unused_characterised using names_assigned_iff [of x tree] by simp

section \<open>A second run on a file without dead bindings\<close>








section \<open>The removal pattern on assignment lines\<close>









lemma rmatch_Eol: "at_eol s \<Longrightarrow> rmatch (Eol # p) prev s = map_option (Cons 0) (rmatch p prev s)"
  by (simp add: prev_after_def)
















section \<open>Repeated assignments\<close>




section \<open>Assignments over several lines\<close>

text \<open>
  C7. The removal of a dead binding whose right-hand side spans several physical lines
  is to take the statement up to its last physical line. It does not: the match of the
  pattern ends at the end of the first physical line. Here the assignment to \<open>y\<close> spans
  three lines; the run removes the first of them and leaves the two continuation lines,
  which are no Python statement on their own.
\<close>

theorem continuation_lines_stay:
  "process_python_file
     \<lparr>read_fails = False,
      ast_parse = parse_table
        [(''y = (\<newline>    1,\<newline>)\<newline>'',
          Node [Assign [Name ''y'' Store] (Node [Node []]) 1])],
      set_order = id, write_fault = NoFault\<rparr>
     ''y = (\<newline>    1,\<newline>)\<newline>'' = (''    1,\<newline>)\<newline>'', 1, 0)"
  by code_simp

end
